theory Spec2Isabelle
  imports Main
begin

section \<open>Data model (shared schema)\<close>

text \<open>
  The tables of the shared schema, each row type a record. Identifiers are the
  \<open>varchar\<close> primary keys; a \<open>decimal(10, 2)\<close> column holds a count of
  hundredths; a \<open>timestamp\<close> is a count of milliseconds. A nullable column has an
  \<open>option\<close> type. Columns that no operation below reads or writes (descriptions of a
  business, avatar of a user, creation stamps of users and businesses) are left out.
\<close>

type_synonym ident = string
type_synonym decimal = int
type_synonym timestamp = nat

datatype employeeRole = Manager | Employee
datatype saleStatus = SalePending | SaleCompleted | SaleCancelled
datatype saleSource = Web | Game
datatype invoiceStatus = InvoicePending | InvoicePaid | InvoiceCancelled

record user =
  u_id :: ident
  u_email :: "string option"

record business =
  b_id :: ident
  b_name :: string
  b_ownerId :: ident
  b_apiKey :: "string option"

record businessEmployee =
  e_id :: ident
  e_businessId :: ident
  e_userId :: ident
  e_role :: "employeeRole option"

record product =
  p_id :: ident
  p_businessId :: ident
  p_name :: string
  p_description :: "string option"
  p_price :: decimal
  p_stock :: "int option"
  p_category :: "string option"
  p_isActive :: "bool option"
  p_updatedAt :: "timestamp option"

record sale =
  s_id :: ident
  s_businessId :: ident
  s_sellerId :: ident
  s_buyerName :: string
  s_buyerInfo :: "string option"
  s_totalAmount :: decimal
  s_status :: "saleStatus option"
  s_source :: "saleSource option"
  s_createdAt :: "timestamp option"

record saleItem =
  si_id :: ident
  si_saleId :: ident
  si_productId :: ident
  si_productName :: string
  si_quantity :: int
  si_unitPrice :: decimal
  si_totalPrice :: decimal

record invoice =
  i_id :: ident
  i_saleId :: ident
  i_invoiceNumber :: string
  i_status :: "invoiceStatus option"
  i_issueDate :: "timestamp option"
  i_dueDate :: "timestamp option"
  i_paidAt :: "timestamp option"

text \<open>The database: one list of rows per table, in insertion order.\<close>

record db =
  users :: "user list"
  businesses :: "business list"
  businessEmployees :: "businessEmployee list"
  products :: "product list"
  sales :: "sale list"
  saleItems :: "saleItem list"
  invoices :: "invoice list"

section \<open>Storage: authorization helper\<close>

text \<open>
  \<open>DatabaseStorage.isUserAuthorizedForBusiness\<close>: a first query selects the
  businesses with this id and this owner; when it returns a row the answer is true.
  Otherwise a second query selects the employee rows with this business and this user.
\<close>

definition isUserAuthorizedForBusiness :: "db \<Rightarrow> ident \<Rightarrow> ident \<Rightarrow> bool" where
  "isUserAuthorizedForBusiness d userId businessId =
     (case find (\<lambda>b. b_id b = businessId \<and> b_ownerId b = userId) (businesses d) of
        Some business \<Rightarrow> True
      | None \<Rightarrow>
          (case find (\<lambda>e. e_businessId e = businessId \<and> e_userId e = userId)
                  (businessEmployees d) of
             Some employee \<Rightarrow> True
           | None \<Rightarrow> False))"

section \<open>Storage: constraints of the schema\<close>

text \<open>
  The database refuses a statement that breaks a constraint declared in the schema, and
  the storage call then throws. Each refusal is an error value. A refused statement
  changes nothing; statements that ran before it stay, since the storage layer issues
  every statement on its own (no statement below is wrapped in a transaction).
\<close>

datatype error =
    UniqueViolation
  | ForeignKeyViolation
  | NumericValueOutOfRange
  | StringDataRightTruncation
  | InvalidTextRepresentation
  | NoValuesToSet

text \<open>\<open>decimal(10, 2)\<close>: fewer than eight digits before the point, in hundredths.\<close>

definition fits_decimal :: "decimal \<Rightarrow> bool" where
  "fits_decimal v = (\<bar>v\<bar> < 10000000000)"

text \<open>\<open>integer\<close>: four bytes, signed.\<close>

definition fits_integer :: "int \<Rightarrow> bool" where
  "fits_integer v = (- 2147483648 \<le> v \<and> v \<le> 2147483647)"

text \<open>
  A string written to a \<open>decimal(10, 2)\<close> column (the type of a decimal column in the
  storage layer is \<open>string\<close>): the decimal numeral that the text denotes, as its digits
  and the number of them after the point, so that \<open>Numeral 75 3\<close> is the text
  \<open>0.075\<close>; or a text that the column cannot read as a number, which it refuses. The
  column rounds the number to hundredths, halves away from zero, and refuses it when the
  rounded number does not fit. (The one text that such a column stores without its being
  a number, \<open>NaN\<close>, is not among these texts.)
\<close>

datatype decimal_text = Numeral int nat | Unreadable

fun hundredths :: "decimal_text \<Rightarrow> decimal" where
  "hundredths (Numeral m k) =
     (if k \<le> 2 then m * 10 ^ (2 - k)
      else if 0 \<le> m then (m + 10 ^ (k - 2) div 2) div 10 ^ (k - 2)
      else - ((- m + 10 ^ (k - 2) div 2) div 10 ^ (k - 2)))"
| "hundredths Unreadable = 0"

definition decimal_violation :: "decimal_text \<Rightarrow> error option" where
  "decimal_violation t =
     (case t of
        Unreadable \<Rightarrow> Some InvalidTextRepresentation
      | Numeral m k \<Rightarrow>
          if fits_decimal (hundredths t) then None else Some NumericValueOutOfRange)"

text \<open>
  A string written to a \<open>varchar(n)\<close> column is refused when it is longer than \<open>n\<close>,
  unless the characters in excess are all spaces: the column then stores the first
  \<open>n\<close> characters.
\<close>

definition too_long :: "nat \<Rightarrow> string \<Rightarrow> bool" where
  "too_long n text = (n < length text \<and> \<not> list_all (\<lambda>c. c = CHR '' '') (drop n text))"

text \<open>
  The environment of a call: the reading of the clock (\<open>new Date()\<close>, \<open>Date.now()\<close>,
  \<open>defaultNow()\<close>) and the identifiers that \<open>gen_random_uuid()\<close> hands out, in the
  order the call draws them.
\<close>

record env =
  now :: timestamp
  gen_random_uuid :: "nat \<Rightarrow> ident"

definition invoices_violation :: "db \<Rightarrow> invoice \<Rightarrow> error option" where
  "invoices_violation d r =
     (if 50 < length (i_invoiceNumber r) then Some StringDataRightTruncation
      else if i_id r \<in> set (map i_id (invoices d)) then Some UniqueViolation
      else if i_invoiceNumber r \<in> set (map i_invoiceNumber (invoices d)) then Some UniqueViolation
      else if i_saleId r \<notin> set (map s_id (sales d)) then Some ForeignKeyViolation
      else None)"

definition insert_invoices :: "db \<Rightarrow> invoice \<Rightarrow> error + db" where
  "insert_invoices d r =
     (case invoices_violation d r of
        Some e \<Rightarrow> Inl e
      | None \<Rightarrow> Inr (d\<lparr>invoices := invoices d @ [r]\<rparr>))"

section \<open>Storage: products\<close>

definition getProduct :: "db \<Rightarrow> ident \<Rightarrow> product option" where
  "getProduct d ident = find (\<lambda>p. p_id p = ident) (products d)"

text \<open>
  \<open>Partial<InsertProduct>\<close>: every field may be absent (\<open>None\<close>); a nullable column
  may also be set to null (\<open>Some None\<close>).
\<close>

record productPatch =
  pp_businessId :: "ident option"
  pp_name :: "string option"
  pp_description :: "string option option"
  pp_price :: "decimal option"
  pp_stock :: "int option option"
  pp_category :: "string option option"
  pp_isActive :: "bool option option"

definition set_product :: "productPatch \<Rightarrow> timestamp \<Rightarrow> product \<Rightarrow> product" where
  "set_product patch t p =
     p\<lparr>p_businessId := (case pp_businessId patch of None \<Rightarrow> p_businessId p | Some v \<Rightarrow> v),
       p_name := (case pp_name patch of None \<Rightarrow> p_name p | Some v \<Rightarrow> v),
       p_description := (case pp_description patch of None \<Rightarrow> p_description p | Some v \<Rightarrow> v),
       p_price := (case pp_price patch of None \<Rightarrow> p_price p | Some v \<Rightarrow> v),
       p_stock := (case pp_stock patch of None \<Rightarrow> p_stock p | Some v \<Rightarrow> v),
       p_category := (case pp_category patch of None \<Rightarrow> p_category p | Some v \<Rightarrow> v),
       p_isActive := (case pp_isActive patch of None \<Rightarrow> p_isActive p | Some v \<Rightarrow> v),
       p_updatedAt := Some t\<rparr>"

text \<open>
  What the database refuses in the values an update assigns: a name or a category that
  is too long, a price or a stock out of range, a business that does not exist.
\<close>

definition productPatch_violation :: "db \<Rightarrow> productPatch \<Rightarrow> error option" where
  "productPatch_violation d patch =
     (if (case pp_name patch of None \<Rightarrow> False | Some v \<Rightarrow> 255 < length v)
        then Some StringDataRightTruncation
      else if (case pp_category patch of Some (Some c) \<Rightarrow> 100 < length c | _ \<Rightarrow> False)
        then Some StringDataRightTruncation
      else if (case pp_price patch of None \<Rightarrow> False | Some v \<Rightarrow> \<not> fits_decimal v)
        then Some NumericValueOutOfRange
      else if (case pp_stock patch of Some (Some v) \<Rightarrow> \<not> fits_integer v | _ \<Rightarrow> False)
        then Some NumericValueOutOfRange
      else if (case pp_businessId patch of
                 None \<Rightarrow> False
               | Some v \<Rightarrow> v \<notin> set (map b_id (businesses d)))
        then Some ForeignKeyViolation
      else None)"

text \<open>
  \<open>DatabaseStorage.updateProduct\<close>: one \<open>UPDATE ... SET ... WHERE id = ... RETURNING\<close>;
  the result is the first returned row, undefined when no row has this id (nothing is
  then assigned, and nothing refused).
\<close>

definition updateProduct ::
  "env \<Rightarrow> ident \<Rightarrow> productPatch \<Rightarrow> db \<Rightarrow> (error + product option) \<times> db" where
  "updateProduct ev ident patch d =
     (case (if ident \<in> set (map p_id (products d)) then productPatch_violation d patch
            else None) of
        Some e \<Rightarrow> (Inl e, d)
      | None \<Rightarrow>
          (let rows = map (\<lambda>p. if p_id p = ident then set_product patch (now ev) p else p)
                        (products d)
           in (Inr (find (\<lambda>p. p_id p = ident) rows), d\<lparr>products := rows\<rparr>)))"

text \<open>
  The stock update of \<open>createSale\<close>:
  \<open>UPDATE products SET stock = stock - quantity, updated_at = now WHERE id = productId\<close>.
  A null stock stays null.
\<close>

definition decrement_stock :: "env \<Rightarrow> ident \<Rightarrow> int \<Rightarrow> db \<Rightarrow> error + db" where
  "decrement_stock ev productId quantity d =
     (if \<exists>p \<in> set (products d). p_id p = productId \<and>
            (case p_stock p of None \<Rightarrow> False | Some s \<Rightarrow> \<not> fits_integer (s - quantity))
      then Inl NumericValueOutOfRange
      else Inr (d\<lparr>products :=
             map (\<lambda>p. if p_id p = productId
                       then p\<lparr>p_stock := map_option (\<lambda>s. s - quantity) (p_stock p),
                              p_updatedAt := Some (now ev)\<rparr>
                       else p) (products d)\<rparr>))"

section \<open>Storage: sales\<close>

text \<open>\<open>InsertSale\<close> and \<open>Omit<InsertSaleItem, "saleId">\<close>.\<close>

record insertSale =
  sd_businessId :: ident
  sd_sellerId :: ident
  sd_buyerName :: string
  sd_buyerInfo :: "string option"
  sd_totalAmount :: decimal_text
  sd_status :: "saleStatus option"
  sd_source :: "saleSource option"

record insertSaleItem =
  it_productId :: ident
  it_productName :: string
  it_quantity :: int
  it_unitPrice :: decimal_text
  it_totalPrice :: decimal_text

text \<open>
  \<open>Date.now().toString(36).toUpperCase()\<close>: the digits of the clock reading in base 36,
  most significant first, with the letters in upper case.
\<close>

definition digit36 :: "nat \<Rightarrow> char" where
  "digit36 k = ''0123456789ABCDEFGHIJKLMNOPQRSTUVWXYZ'' ! k"

function toString36 :: "nat \<Rightarrow> string" where
  "toString36 n = (if n < 36 then [digit36 n] else toString36 (n div 36) @ [digit36 (n mod 36)])"
  by pat_completeness auto
termination
  by (relation "measure (\<lambda>n. n)") auto

declare toString36.simps [simp del]

definition invoiceNumber :: "env \<Rightarrow> string" where
  "invoiceNumber ev = ''INV-'' @ toString36 (now ev)"

text \<open>
  The loop of \<open>createSale\<close> over the items: insert the item row, then decrement the
  stock of its product. The counter is the number of identifiers drawn so far.
\<close>

text \<open>
  The item row that the values of an item make: the name as the column cuts it, the
  prices as the columns round them.
\<close>

definition new_saleItem :: "env \<Rightarrow> nat \<Rightarrow> ident \<Rightarrow> insertSaleItem \<Rightarrow> saleItem" where
  "new_saleItem ev k saleId item =
     \<lparr>si_id = gen_random_uuid ev k, si_saleId = saleId,
      si_productId = it_productId item, si_productName = take 255 (it_productName item),
      si_quantity = it_quantity item, si_unitPrice = hundredths (it_unitPrice item),
      si_totalPrice = hundredths (it_totalPrice item)\<rparr>"

text \<open>
  What the database refuses in an insert into \<open>sale_items\<close>: first among the values,
  then among the constraints of the table on the row they make.
\<close>

definition saleItems_violation :: "db \<Rightarrow> insertSaleItem \<Rightarrow> saleItem \<Rightarrow> error option" where
  "saleItems_violation d item r =
     (if too_long 255 (it_productName item) then Some StringDataRightTruncation
      else if \<not> fits_integer (it_quantity item) then Some NumericValueOutOfRange
      else if decimal_violation (it_unitPrice item) \<noteq> None
        then decimal_violation (it_unitPrice item)
      else if decimal_violation (it_totalPrice item) \<noteq> None
        then decimal_violation (it_totalPrice item)
      else if si_id r \<in> set (map si_id (saleItems d)) then Some UniqueViolation
      else if si_saleId r \<notin> set (map s_id (sales d)) then Some ForeignKeyViolation
      else if si_productId r \<notin> set (map p_id (products d)) then Some ForeignKeyViolation
      else None)"

definition insert_saleItems :: "db \<Rightarrow> insertSaleItem \<Rightarrow> saleItem \<Rightarrow> error + db" where
  "insert_saleItems d item r =
     (case saleItems_violation d item r of
        Some e \<Rightarrow> Inl e
      | None \<Rightarrow> Inr (d\<lparr>saleItems := saleItems d @ [r]\<rparr>))"

fun createSale_items ::
  "env \<Rightarrow> ident \<Rightarrow> nat \<Rightarrow> insertSaleItem list \<Rightarrow> db \<Rightarrow> (error + unit) \<times> db" where
  "createSale_items ev saleId k [] d = (Inr (), d)"
| "createSale_items ev saleId k (item # items) d =
     (case insert_saleItems d item (new_saleItem ev k saleId item) of
        Inl e \<Rightarrow> (Inl e, d)
      | Inr d1 \<Rightarrow>
          (case decrement_stock ev (it_productId item) (it_quantity item) d1 of
             Inl e \<Rightarrow> (Inl e, d1)
           | Inr d2 \<Rightarrow> createSale_items ev saleId (Suc k) items d2))"

text \<open>
  The sale row that the values of a sale make, with the defaults of the table, the buyer
  name as the column cuts it and the total amount as the column rounds it.
\<close>

definition new_sale :: "env \<Rightarrow> insertSale \<Rightarrow> sale" where
  "new_sale ev saleData =
     \<lparr>s_id = gen_random_uuid ev 0, s_businessId = sd_businessId saleData,
      s_sellerId = sd_sellerId saleData, s_buyerName = take 255 (sd_buyerName saleData),
      s_buyerInfo = sd_buyerInfo saleData, s_totalAmount = hundredths (sd_totalAmount saleData),
      s_status = Some (case sd_status saleData of None \<Rightarrow> SaleCompleted | Some v \<Rightarrow> v),
      s_source = Some (case sd_source saleData of None \<Rightarrow> Web | Some v \<Rightarrow> v),
      s_createdAt = Some (now ev)\<rparr>"

definition sales_violation :: "db \<Rightarrow> insertSale \<Rightarrow> sale \<Rightarrow> error option" where
  "sales_violation d saleData r =
     (if too_long 255 (sd_buyerName saleData) then Some StringDataRightTruncation
      else if decimal_violation (sd_totalAmount saleData) \<noteq> None
        then decimal_violation (sd_totalAmount saleData)
      else if s_id r \<in> set (map s_id (sales d)) then Some UniqueViolation
      else if s_businessId r \<notin> set (map b_id (businesses d)) then Some ForeignKeyViolation
      else if s_sellerId r \<notin> set (map u_id (users d)) then Some ForeignKeyViolation
      else None)"

definition insert_sales :: "db \<Rightarrow> insertSale \<Rightarrow> sale \<Rightarrow> error + db" where
  "insert_sales d saleData r =
     (case sales_violation d saleData r of
        Some e \<Rightarrow> Inl e
      | None \<Rightarrow> Inr (d\<lparr>sales := sales d @ [r]\<rparr>))"

definition new_invoice :: "env \<Rightarrow> nat \<Rightarrow> sale \<Rightarrow> invoice" where
  "new_invoice ev k sale =
     \<lparr>i_id = gen_random_uuid ev k, i_saleId = s_id sale, i_invoiceNumber = invoiceNumber ev,
      i_status = Some InvoicePending, i_issueDate = Some (now ev), i_dueDate = None,
      i_paidAt = None\<rparr>"

text \<open>
  \<open>DatabaseStorage.createSale\<close>: insert the sale, run the loop, insert the invoice. The
  second component of the result is the database the call leaves behind, also when it
  throws.
\<close>

definition createSale ::
  "env \<Rightarrow> insertSale \<Rightarrow> insertSaleItem list \<Rightarrow> db \<Rightarrow> (error + sale \<times> invoice) \<times> db" where
  "createSale ev saleData items d =
     (let sale = new_sale ev saleData in
      case insert_sales d saleData sale of
        Inl e \<Rightarrow> (Inl e, d)
      | Inr d1 \<Rightarrow>
          (case createSale_items ev (s_id sale) 1 items d1 of
             (Inl e, d2) \<Rightarrow> (Inl e, d2)
           | (Inr u, d2) \<Rightarrow>
               (let invoice = new_invoice ev (Suc (length items)) sale in
                case insert_invoices d2 invoice of
                  Inl e \<Rightarrow> (Inl e, d2)
                | Inr d3 \<Rightarrow> (Inr (sale, invoice), d3))))"

section \<open>Storage: businesses and invoices\<close>

text \<open>
  \<open>DatabaseStorage.getBusinessByApiKey\<close>: the first business whose key equals the given
  one. A business whose key is null matches no key.
\<close>

definition getBusinessByApiKey :: "db \<Rightarrow> string \<Rightarrow> business option" where
  "getBusinessByApiKey d apiKey = find (\<lambda>b. b_apiKey b = Some apiKey) (businesses d)"

text \<open>
  The fields of \<open>Partial<Invoice>\<close> that a caller sets: absent (\<open>None\<close>), null
  (\<open>Some None\<close>) or a value.
\<close>

record invoicePatch =
  ip_status :: "invoiceStatus option option"
  ip_dueDate :: "timestamp option option"
  ip_paidAt :: "timestamp option option"

definition set_invoice :: "invoicePatch \<Rightarrow> invoice \<Rightarrow> invoice" where
  "set_invoice updateData i =
     i\<lparr>i_status := (case ip_status updateData of None \<Rightarrow> i_status i | Some v \<Rightarrow> v),
       i_dueDate := (case ip_dueDate updateData of None \<Rightarrow> i_dueDate i | Some v \<Rightarrow> v),
       i_paidAt := (case ip_paidAt updateData of None \<Rightarrow> i_paidAt i | Some v \<Rightarrow> v)\<rparr>"

text \<open>
  \<open>DatabaseStorage.updateInvoice\<close>. The test \<open>!data.paidAt\<close> reads the data of the
  call: it holds when that field is absent or null. An update with nothing to set is
  refused.
\<close>

definition updateInvoice ::
  "env \<Rightarrow> ident \<Rightarrow> invoicePatch \<Rightarrow> db \<Rightarrow> (error + invoice option) \<times> db" where
  "updateInvoice ev ident data d =
     (let updateData =
            (if ip_status data = Some (Some InvoicePaid) \<and>
                (case ip_paidAt data of Some (Some t) \<Rightarrow> False | _ \<Rightarrow> True)
             then data\<lparr>ip_paidAt := Some (Some (now ev))\<rparr>
             else data)
      in if ip_status updateData = None \<and> ip_dueDate updateData = None \<and>
            ip_paidAt updateData = None
         then (Inl NoValuesToSet, d)
         else (let rows = map (\<lambda>i. if i_id i = ident then set_invoice updateData i else i)
                            (invoices d)
               in (Inr (find (\<lambda>i. i_id i = ident) rows), d\<lparr>invoices := rows\<rparr>)))"

section \<open>Routes\<close>

text \<open>
  A handler takes the parsed request and the database and returns the response and the
  database it leaves. The \<open>catch\<close> of a handler turns every thrown error, a refusal by
  the request schema included, into its generic 400 response. A session route is
  entered with the id of the authenticated user; the authentication middleware, which
  refreshes the row of that user before the handler runs, touches no other table and is
  not part of the handlers.
\<close>

datatype json =
    Message string
  | SaleCreated sale invoice
  | GameSaleCreated ident string decimal
  | ProductJson "product option"
  | InvoiceJson "invoice option"

record response =
  res_status :: nat
  res_json :: json

definition reply :: "nat \<Rightarrow> json \<Rightarrow> response" where
  "reply c j = \<lparr>res_status = c, res_json = j\<rparr>"

subsection \<open>PATCH /api/products/:id\<close>

definition patch_product ::
  "env \<Rightarrow> ident \<Rightarrow> ident \<Rightarrow> productPatch \<Rightarrow> db \<Rightarrow> response \<times> db" where
  "patch_product ev userId ident body d =
     (case getProduct d ident of
        None \<Rightarrow> (reply 404 (Message ''Product not found''), d)
      | Some existingProduct \<Rightarrow>
          if \<not> isUserAuthorizedForBusiness d userId (p_businessId existingProduct)
          then (reply 403 (Message ''Not authorized to update this product''), d)
          else (let updateData = body\<lparr>pp_businessId := None\<rparr> in
                case updateProduct ev ident updateData d of
                  (Inl e, d') \<Rightarrow> (reply 400 (Message ''Failed to update product''), d')
                | (Inr product, d') \<Rightarrow> (reply 200 (ProductJson product), d')))"

subsection \<open>PATCH /api/invoices/:id\<close>

text \<open>The request schema: an optional status and an optional due date.\<close>

record invoiceRequest =
  ir_status :: "invoiceStatus option"
  ir_dueDate :: "timestamp option"

definition patch_invoice ::
  "env \<Rightarrow> ident \<Rightarrow> ident \<Rightarrow> invoiceRequest \<Rightarrow> db \<Rightarrow> response \<times> db" where
  "patch_invoice ev userId ident body d =
     (case find (\<lambda>i. i_id i = ident) (invoices d) of
        None \<Rightarrow> (reply 404 (Message ''Invoice not found''), d)
      | Some existingInvoice \<Rightarrow>
          if (case find (\<lambda>s. s_id s = i_saleId existingInvoice) (sales d) of
                None \<Rightarrow> False
              | Some sale \<Rightarrow> \<not> isUserAuthorizedForBusiness d userId (s_businessId sale))
          then (reply 403 (Message ''Not authorized to update this invoice''), d)
          else (case updateInvoice ev ident
                       \<lparr>ip_status = map_option Some (ir_status body),
                        ip_dueDate = map_option Some (ir_dueDate body),
                        ip_paidAt = None\<rparr> d of
                  (Inl e, d') \<Rightarrow> (reply 400 (Message ''Failed to update invoice''), d')
                | (Inr invoice, d') \<Rightarrow> (reply 200 (InvoiceJson invoice), d')))"

subsection \<open>POST /api/sales\<close>

text \<open>
  The body of a web sale: the items carry a product name, a unit price and a line total,
  and the body carries a total amount, all as the client sent them. The schema takes
  the three amounts as strings of any content.
\<close>

record webSale =
  ws_businessId :: ident
  ws_buyerName :: string
  ws_buyerInfo :: "string option"
  ws_totalAmount :: decimal_text
  ws_status :: "saleStatus option"
  ws_source :: "saleSource option"
  ws_items :: "insertSaleItem list"

text \<open>What the schema checks beyond the shape: a buyer name, positive quantities.\<close>

definition webSale_schema :: "webSale \<Rightarrow> bool" where
  "webSale_schema b = (1 \<le> length (ws_buyerName b) \<and> (\<forall>item \<in> set (ws_items b). 0 < it_quantity item))"

text \<open>\<open>product.stock || 0\<close>: a null stock counts as zero.\<close>

definition stock_or_0 :: "product \<Rightarrow> int" where
  "stock_or_0 product = (case p_stock product of None \<Rightarrow> 0 | Some s \<Rightarrow> s)"

text \<open>
  The loop that verifies the items: the message of the first item that is refused, or
  nothing. A null stock counts as zero.
\<close>

fun verify_items :: "db \<Rightarrow> ident \<Rightarrow> insertSaleItem list \<Rightarrow> string option" where
  "verify_items d bid [] = None"
| "verify_items d bid (item # items) =
     (case getProduct d (it_productId item) of
        None \<Rightarrow> Some (''Product '' @ it_productId item @ '' not found'')
      | Some product \<Rightarrow>
          if p_businessId product \<noteq> bid
          then Some (''Product '' @ p_name product @ '' does not belong to this business'')
          else if stock_or_0 product < it_quantity item
          then Some (''Insufficient stock for '' @ p_name product)
          else verify_items d bid items)"

text \<open>\<open>{ ...saleData, sellerId: userId }\<close>: the body without its items, with the seller.\<close>

definition web_saleData :: "ident \<Rightarrow> webSale \<Rightarrow> insertSale" where
  "web_saleData userId body =
     \<lparr>sd_businessId = ws_businessId body, sd_sellerId = userId,
      sd_buyerName = ws_buyerName body, sd_buyerInfo = ws_buyerInfo body,
      sd_totalAmount = ws_totalAmount body, sd_status = ws_status body,
      sd_source = ws_source body\<rparr>"

definition post_sales :: "env \<Rightarrow> ident \<Rightarrow> webSale \<Rightarrow> db \<Rightarrow> response \<times> db" where
  "post_sales ev userId body d =
     (if \<not> webSale_schema body then (reply 400 (Message ''Failed to create sale''), d)
      else if \<not> isUserAuthorizedForBusiness d userId (ws_businessId body)
      then (reply 403 (Message ''Not authorized to create sales for this business''), d)
      else (case verify_items d (ws_businessId body) (ws_items body) of
              Some message \<Rightarrow> (reply 400 (Message message), d)
            | None \<Rightarrow>
                (case createSale ev (web_saleData userId body) (ws_items body) d of
                   (Inl e, d') \<Rightarrow> (reply 400 (Message ''Failed to create sale''), d')
                 | (Inr (sale, invoice), d') \<Rightarrow> (reply 201 (SaleCreated sale invoice), d'))))"

subsection \<open>POST /api/game/sales\<close>

record gameItem =
  gi_productId :: ident
  gi_quantity :: int

record gameSale =
  gs_businessApiKey :: string
  gs_buyerName :: string
  gs_buyerInfo :: "string option"
  gs_sellerId :: "ident option"
  gs_items :: "gameItem list"

definition gameSale_schema :: "gameSale \<Rightarrow> bool" where
  "gameSale_schema b = (1 \<le> length (gs_buyerName b) \<and> (\<forall>item \<in> set (gs_items b). 0 < gi_quantity item))"

text \<open>
  The seller: the owner of the business, unless a seller id is supplied (an empty string
  counts as none) and that user is authorized for the business.
\<close>

definition resolve_seller :: "db \<Rightarrow> business \<Rightarrow> ident option \<Rightarrow> ident" where
  "resolve_seller d business supplied =
     (case supplied of
        None \<Rightarrow> b_ownerId business
      | Some s \<Rightarrow>
          if s \<noteq> [] \<and> isUserAuthorizedForBusiness d s (b_id business) then s
          else b_ownerId business)"

text \<open>
  The loop that resolves the items: it verifies each item as the web route does, and
  builds the item to store from the product row: its id, name and price, and the line
  total, price times quantity. The accumulators are the items built and the running
  total. JavaScript computes the line total and the running total in binary floating
  point and writes them as text; for amounts the \<open>decimal(10, 2)\<close> columns accept, the
  error of the floating point stays far below half a hundredth, so the columns round the
  text to the exact amount. The model computes the exact amounts in hundredths and
  writes them as texts with two decimals.
\<close>

fun resolve_items ::
  "db \<Rightarrow> ident \<Rightarrow> gameItem list \<Rightarrow> insertSaleItem list \<Rightarrow> decimal \<Rightarrow>
     string + insertSaleItem list \<times> decimal" where
  "resolve_items d bid [] items totalAmount = Inr (items, totalAmount)"
| "resolve_items d bid (item # rest) items totalAmount =
     (case getProduct d (gi_productId item) of
        None \<Rightarrow> Inl (''Product '' @ gi_productId item @ '' not found'')
      | Some product \<Rightarrow>
          if p_businessId product \<noteq> bid
          then Inl (''Product '' @ p_name product @ '' does not belong to this business'')
          else if stock_or_0 product < gi_quantity item
          then Inl (''Insufficient stock for '' @ p_name product)
          else (let itemTotal = p_price product * gi_quantity item in
                resolve_items d bid rest
                  (items @ [\<lparr>it_productId = p_id product, it_productName = p_name product,
                             it_quantity = gi_quantity item,
                             it_unitPrice = Numeral (p_price product) 2,
                             it_totalPrice = Numeral itemTotal 2\<rparr>])
                  (totalAmount + itemTotal)))"

text \<open>The sale that the game route hands to \<open>createSale\<close>.\<close>

definition game_saleData :: "db \<Rightarrow> business \<Rightarrow> gameSale \<Rightarrow> decimal \<Rightarrow> insertSale" where
  "game_saleData d business body totalAmount =
     \<lparr>sd_businessId = b_id business,
      sd_sellerId = resolve_seller d business (gs_sellerId body),
      sd_buyerName = gs_buyerName body, sd_buyerInfo = gs_buyerInfo body,
      sd_totalAmount = Numeral totalAmount 2, sd_status = Some SaleCompleted,
      sd_source = Some Game\<rparr>"

definition post_game_sales :: "env \<Rightarrow> gameSale \<Rightarrow> db \<Rightarrow> response \<times> db" where
  "post_game_sales ev body d =
     (if \<not> gameSale_schema body then (reply 400 (Message ''Failed to process sale''), d)
      else (case getBusinessByApiKey d (gs_businessApiKey body) of
              None \<Rightarrow> (reply 401 (Message ''Invalid API key''), d)
            | Some business \<Rightarrow>
                (case resolve_items d (b_id business) (gs_items body) [] 0 of
                   Inl message \<Rightarrow> (reply 400 (Message message), d)
                 | Inr (items, totalAmount) \<Rightarrow>
                     (case createSale ev (game_saleData d business body totalAmount) items d of
                        (Inl e, d') \<Rightarrow> (reply 400 (Message ''Failed to process sale''), d')
                      | (Inr (sale, invoice), d') \<Rightarrow>
                          (reply 201 (GameSaleCreated (s_id sale) (i_invoiceNumber invoice) totalAmount),
                           d')))))"

section \<open>Stating the effect of a sale\<close>

text \<open>
  The quantity of one product that a list of items sells, and the relation between the
  product table before and after these items were sold: the same products in the same
  order, each with its business, name and price unchanged and its stock lowered by the
  quantity sold (a null stock stays null).
\<close>

definition sold :: "insertSaleItem list \<Rightarrow> ident \<Rightarrow> int" where
  "sold items ident = sum_list (map it_quantity (filter (\<lambda>item. it_productId item = ident) items))"

definition stock_decremented :: "insertSaleItem list \<Rightarrow> product list \<Rightarrow> product list \<Rightarrow> bool" where
  "stock_decremented items ps ps' =
     list_all2 (\<lambda>p p'. p_id p' = p_id p \<and> p_businessId p' = p_businessId p \<and>
                  p_name p' = p_name p \<and> p_price p' = p_price p \<and>
                  p_stock p' = map_option (\<lambda>s. s - sold items (p_id p)) (p_stock p)) ps ps'"

text \<open>
  A line of a sale request is unavailable for a business when its product does not
  exist, belongs to another business, or has less stock than the line asks for. Each of
  the three has a message of its own; a product of another business is named as such
  whatever its stock.
\<close>

definition unavailable :: "db \<Rightarrow> ident \<Rightarrow> ident \<Rightarrow> int \<Rightarrow> bool" where
  "unavailable d bid pid q =
     (case getProduct d pid of
        None \<Rightarrow> True
      | Some p \<Rightarrow> p_businessId p \<noteq> bid \<or> stock_or_0 p < q)"

definition names_reason :: "db \<Rightarrow> ident \<Rightarrow> ident \<Rightarrow> int \<Rightarrow> string \<Rightarrow> bool" where
  "names_reason d bid pid q message =
     (case getProduct d pid of
        None \<Rightarrow> message = ''Product '' @ pid @ '' not found''
      | Some p \<Rightarrow>
          (p_businessId p \<noteq> bid \<and>
           message = ''Product '' @ p_name p @ '' does not belong to this business'') \<or>
          (p_businessId p = bid \<and> stock_or_0 p < q \<and>
           message = ''Insufficient stock for '' @ p_name p))"

text \<open>
  The item row that stores an item for a sale, whatever its own identifier: the name of
  the item as the column cuts it, its prices as the columns round them.
\<close>

definition stores :: "ident \<Rightarrow> insertSaleItem \<Rightarrow> saleItem \<Rightarrow> bool" where
  "stores saleId item row =
     (si_saleId row = saleId \<and> si_productId row = it_productId item \<and>
      si_productName row = take 255 (it_productName item) \<and>
      si_quantity row = it_quantity item \<and>
      si_unitPrice row = hundredths (it_unitPrice item) \<and>
      si_totalPrice row = hundredths (it_totalPrice item))"



section \<open>Example data\<close>

text \<open>
  A burger bar owned by alice, with bob as its employee and a game key, and a garage
  owned by carol. The burger costs 100.00 and three are in stock.
\<close>

definition db0 :: db where
  "db0 =
     \<lparr>users = [\<lparr>u_id = ''alice'', u_email = Some ''alice@rp.gg''\<rparr>,
               \<lparr>u_id = ''bob'', u_email = Some ''bob@rp.gg''\<rparr>,
               \<lparr>u_id = ''carol'', u_email = None\<rparr>],
      businesses =
        [\<lparr>b_id = ''B1'', b_name = ''Burger Shot'', b_ownerId = ''alice'',
          b_apiKey = Some ''rp_1''\<rparr>,
         \<lparr>b_id = ''B2'', b_name = ''Garage'', b_ownerId = ''carol'', b_apiKey = None\<rparr>],
      businessEmployees =
        [\<lparr>e_id = ''E1'', e_businessId = ''B1'', e_userId = ''bob'', e_role = Some Employee\<rparr>],
      products =
        [\<lparr>p_id = ''P1'', p_businessId = ''B1'', p_name = ''Burger'', p_description = None,
          p_price = 10000, p_stock = Some 3, p_category = None, p_isActive = Some True,
          p_updatedAt = None\<rparr>,
         \<lparr>p_id = ''P2'', p_businessId = ''B2'', p_name = ''Tyre'', p_description = None,
          p_price = 2550, p_stock = Some 10, p_category = None, p_isActive = Some True,
          p_updatedAt = None\<rparr>],
      sales = [], saleItems = [], invoices = []\<rparr>"

text \<open>Two calls in the same millisecond; each draws identifiers of its own.\<close>

definition ev0 :: env where
  "ev0 = \<lparr>now = 1700000000000, gen_random_uuid = (\<lambda>k. ''a-'' @ toString36 k)\<rparr>"

definition ev1 :: env where
  "ev1 = \<lparr>now = 1700000000000, gen_random_uuid = (\<lambda>k. ''b-'' @ toString36 k)\<rparr>"

text \<open>A later call.\<close>

definition ev2 :: env where
  "ev2 = \<lparr>now = 1700000060000, gen_random_uuid = (\<lambda>k. ''c-'' @ toString36 k)\<rparr>"

text \<open>A game sale of two burgers that names carol, who is not of the burger bar, as seller.\<close>

definition game_two_burgers :: gameSale where
  "game_two_burgers =
     \<lparr>gs_businessApiKey = ''rp_1'', gs_buyerName = ''Zed'', gs_buyerInfo = None,
      gs_sellerId = Some ''carol'',
      gs_items = [\<lparr>gi_productId = ''P1'', gi_quantity = 2\<rparr>]\<rparr>"

definition game_one_burger :: gameSale where
  "game_one_burger =
     \<lparr>gs_businessApiKey = ''rp_1'', gs_buyerName = ''Yan'', gs_buyerInfo = None,
      gs_sellerId = None,
      gs_items = [\<lparr>gi_productId = ''P1'', gi_quantity = 1\<rparr>]\<rparr>"

text \<open>
  A web sale by bob of two burgers, in which the client names the product and prices it
  as it likes: a unit price of 0.01, a line total of 0.05 and a total amount of 0.07.
\<close>

definition web_two_burgers :: webSale where
  "web_two_burgers =
     \<lparr>ws_businessId = ''B1'', ws_buyerName = ''Zed'', ws_buyerInfo = None,
      ws_totalAmount = Numeral 7 2, ws_status = Some SaleCompleted, ws_source = Some Web,
      ws_items = [\<lparr>it_productId = ''P1'', it_productName = ''Gift'', it_quantity = 2,
                   it_unitPrice = Numeral 1 2, it_totalPrice = Numeral 5 2\<rparr>]\<rparr>"

text \<open>
  A web sale by bob of three burgers with the amounts that the web client composes for
  a price of 0.10: the unit price is the text \<open>0.10\<close>, the line total and the total
  amount are the text of the floating point product, \<open>0.30000000000000004\<close>.
\<close>

definition web_three_dimes :: webSale where
  "web_three_dimes =
     \<lparr>ws_businessId = ''B1'', ws_buyerName = ''Zed'', ws_buyerInfo = None,
      ws_totalAmount = Numeral 30000000000000004 17, ws_status = Some SaleCompleted,
      ws_source = Some Web,
      ws_items = [\<lparr>it_productId = ''P1'', it_productName = ''Burger'', it_quantity = 3,
                   it_unitPrice = Numeral 10 2,
                   it_totalPrice = Numeral 30000000000000004 17\<rparr>]\<rparr>"

text \<open>
  A web sale by bob of two burgers with amounts of three decimals: a unit price of
  \<open>0.005\<close>, a line total of \<open>0.010\<close> and a total amount of \<open>0.075\<close>.
\<close>

definition web_half_cents :: webSale where
  "web_half_cents =
     \<lparr>ws_businessId = ''B1'', ws_buyerName = ''Zed'', ws_buyerInfo = None,
      ws_totalAmount = Numeral 75 3, ws_status = Some SaleCompleted, ws_source = Some Web,
      ws_items = [\<lparr>it_productId = ''P1'', it_productName = ''Burger'', it_quantity = 2,
                   it_unitPrice = Numeral 5 3, it_totalPrice = Numeral 10 3\<rparr>]\<rparr>"

text \<open>
  Requests that must be refused: a web sale by bob of five burgers, a game sale of a tyre
  (a product of the garage) under the key of the burger bar, and a game sale under a key
  that no business has.
\<close>

definition web_five_burgers :: webSale where
  "web_five_burgers =
     \<lparr>ws_businessId = ''B1'', ws_buyerName = ''Zed'', ws_buyerInfo = None,
      ws_totalAmount = Numeral 50000 2, ws_status = None, ws_source = None,
      ws_items = [\<lparr>it_productId = ''P1'', it_productName = ''Burger'', it_quantity = 5,
                   it_unitPrice = Numeral 10000 2, it_totalPrice = Numeral 50000 2\<rparr>]\<rparr>"

definition game_tyre :: gameSale where
  "game_tyre =
     \<lparr>gs_businessApiKey = ''rp_1'', gs_buyerName = ''Zed'', gs_buyerInfo = None,
      gs_sellerId = None, gs_items = [\<lparr>gi_productId = ''P2'', gi_quantity = 1\<rparr>]\<rparr>"

text \<open>Two lines of two burgers each, on either route: four burgers, of three in stock.\<close>

definition game_two_lines :: gameSale where
  "game_two_lines =
     \<lparr>gs_businessApiKey = ''rp_1'', gs_buyerName = ''Zed'', gs_buyerInfo = None,
      gs_sellerId = None,
      gs_items = [\<lparr>gi_productId = ''P1'', gi_quantity = 2\<rparr>,
                  \<lparr>gi_productId = ''P1'', gi_quantity = 2\<rparr>]\<rparr>"

definition web_two_lines :: webSale where
  "web_two_lines =
     \<lparr>ws_businessId = ''B1'', ws_buyerName = ''Zed'', ws_buyerInfo = None,
      ws_totalAmount = Numeral 40000 2, ws_status = None, ws_source = None,
      ws_items = [\<lparr>it_productId = ''P1'', it_productName = ''Burger'', it_quantity = 2,
                   it_unitPrice = Numeral 10000 2, it_totalPrice = Numeral 20000 2\<rparr>,
                  \<lparr>it_productId = ''P1'', it_productName = ''Burger'', it_quantity = 2,
                   it_unitPrice = Numeral 10000 2, it_totalPrice = Numeral 20000 2\<rparr>]\<rparr>"

definition game_wrong_key :: gameSale where
  "game_wrong_key =
     \<lparr>gs_businessApiKey = ''rp_0'', gs_buyerName = ''Zed'', gs_buyerInfo = None,
      gs_sellerId = None, gs_items = [\<lparr>gi_productId = ''P1'', gi_quantity = 1\<rparr>]\<rparr>"

text \<open>
  The database after the game sale of two burgers in the call \<open>ev0\<close>, and the sale of
  one more burger that the game route composes from \<open>game_one_burger\<close>.
\<close>

definition db1 :: db where
  "db1 =
     db0\<lparr>products :=
           [\<lparr>p_id = ''P1'', p_businessId = ''B1'', p_name = ''Burger'', p_description = None,
             p_price = 10000, p_stock = Some 1, p_category = None, p_isActive = Some True,
             p_updatedAt = Some 1700000000000\<rparr>,
            \<lparr>p_id = ''P2'', p_businessId = ''B2'', p_name = ''Tyre'', p_description = None,
             p_price = 2550, p_stock = Some 10, p_category = None, p_isActive = Some True,
             p_updatedAt = None\<rparr>],
         sales :=
           [\<lparr>s_id = ''a-0'', s_businessId = ''B1'', s_sellerId = ''alice'', s_buyerName = ''Zed'',
             s_buyerInfo = None, s_totalAmount = 20000, s_status = Some SaleCompleted,
             s_source = Some Game, s_createdAt = Some 1700000000000\<rparr>],
         saleItems :=
           [\<lparr>si_id = ''a-1'', si_saleId = ''a-0'', si_productId = ''P1'',
             si_productName = ''Burger'', si_quantity = 2, si_unitPrice = 10000,
             si_totalPrice = 20000\<rparr>],
         invoices :=
           [\<lparr>i_id = ''a-2'', i_saleId = ''a-0'', i_invoiceNumber = ''INV-LOYW3V28'',
             i_status = Some InvoicePending, i_issueDate = Some 1700000000000,
             i_dueDate = None, i_paidAt = None\<rparr>]\<rparr>"

definition one_burger_sale :: insertSale where
  "one_burger_sale =
     \<lparr>sd_businessId = ''B1'', sd_sellerId = ''alice'', sd_buyerName = ''Yan'',
      sd_buyerInfo = None, sd_totalAmount = Numeral 10000 2, sd_status = Some SaleCompleted,
      sd_source = Some Game\<rparr>"

definition one_burger_items :: "insertSaleItem list" where
  "one_burger_items =
     [\<lparr>it_productId = ''P1'', it_productName = ''Burger'', it_quantity = 1,
       it_unitPrice = Numeral 10000 2, it_totalPrice = Numeral 10000 2\<rparr>]"

text \<open>A call a minute after \<open>ev2\<close>.\<close>

definition ev3 :: env where
  "ev3 = \<lparr>now = 1700000120000, gen_random_uuid = (\<lambda>k. ''d-'' @ toString36 k)\<rparr>"

text \<open>The request that marks an invoice as paid.\<close>

definition mark_paid :: invoiceRequest where
  "mark_paid = \<lparr>ir_status = Some InvoicePaid, ir_dueDate = None\<rparr>"

text \<open>
  An update of the burger by bob: a new price and stock, and an attempt to move the
  product to the garage.
\<close>

definition move_burger :: productPatch where
  "move_burger =
     \<lparr>pp_businessId = Some ''B2'', pp_name = None, pp_description = Some (Some ''Double''),
      pp_price = Some 12000, pp_stock = Some (Some 8), pp_category = None,
      pp_isActive = None\<rparr>"

lemmas storage_defs = isUserAuthorizedForBusiness_def fits_decimal_def fits_integer_def
  decimal_violation_def too_long_def
  sales_violation_def insert_sales_def saleItems_violation_def insert_saleItems_def
  invoices_violation_def insert_invoices_def getProduct_def set_product_def
  productPatch_violation_def updateProduct_def decrement_stock_def digit36_def toString36.simps
  invoiceNumber_def new_saleItem_def new_sale_def new_invoice_def createSale_def
  getBusinessByApiKey_def set_invoice_def updateInvoice_def Let_def

lemmas route_defs = reply_def stock_or_0_def web_saleData_def game_saleData_def patch_product_def patch_invoice_def webSale_schema_def
  post_sales_def gameSale_schema_def resolve_seller_def post_game_sales_def

lemmas example_defs = db0_def db1_def ev0_def ev1_def ev2_def game_two_burgers_def
  game_one_burger_def web_two_burgers_def one_burger_sale_def one_burger_items_def
  web_five_burgers_def game_tyre_def game_wrong_key_def ev3_def mark_paid_def move_burger_def
  web_three_dimes_def web_half_cents_def game_two_lines_def web_two_lines_def

section \<open>The statements of the storage layer\<close>

lemma find_is_Some: "(find P xs \<noteq> None) = (\<exists>x \<in> set xs. P x)"
  by (induction xs) auto

lemma find_Some_D: "find P xs = Some x \<Longrightarrow> x \<in> set xs \<and> P x"
  by (induction xs) (auto split: if_splits)

lemma insert_saleItems_Inr:
  "insert_saleItems d item r = Inr d' \<Longrightarrow> d' = d\<lparr>saleItems := saleItems d @ [r]\<rparr>"
  by (auto simp: insert_saleItems_def split: option.splits)

lemma insert_sales_Inr:
  "insert_sales d saleData r = Inr d' \<Longrightarrow>
     d' = d\<lparr>sales := sales d @ [r]\<rparr> \<and> s_id r \<notin> set (map s_id (sales d))"
  by (auto simp: insert_sales_def sales_violation_def split: option.splits if_splits)

lemma insert_invoices_Inr:
  "insert_invoices d r = Inr d' \<Longrightarrow>
     d' = d\<lparr>invoices := invoices d @ [r]\<rparr> \<and>
     i_invoiceNumber r \<notin> set (map i_invoiceNumber (invoices d))"
  by (auto simp: insert_invoices_def invoices_violation_def split: option.splits if_splits)

lemma decrement_stock_Inr:
  "decrement_stock ev pid q d = Inr d' \<Longrightarrow>
     d' = d\<lparr>products :=
             map (\<lambda>p. if p_id p = pid
                       then p\<lparr>p_stock := map_option (\<lambda>s. s - q) (p_stock p),
                              p_updatedAt := Some (now ev)\<rparr>
                       else p) (products d)\<rparr>"
  by (auto simp: decrement_stock_def split: if_splits)

lemma createSale_items_frame:
  "createSale_items ev sid k items d = (r, d') \<Longrightarrow>
     users d' = users d \<and> businesses d' = businesses d \<and>
     businessEmployees d' = businessEmployees d \<and> sales d' = sales d \<and>
     invoices d' = invoices d"
proof (induction items arbitrary: d k)
  case Nil
  then show ?case by simp
next
  case (Cons item items)
  show ?case
  proof (cases "insert_saleItems d item (new_saleItem ev k sid item)")
    case (Inl e)
    with Cons.prems show ?thesis by simp
  next
    case (Inr d1)
    note d1 = insert_saleItems_Inr [OF Inr]
    show ?thesis
    proof (cases "decrement_stock ev (it_productId item) (it_quantity item) d1")
      case (Inl e)
      with Cons.prems Inr d1 show ?thesis by auto
    next
      case d2: (Inr d2)
      note eq = decrement_stock_Inr [OF d2]
      from Cons.prems Inr d2 have "createSale_items ev sid (Suc k) items d2 = (r, d')"
        by simp
      from Cons.IH [OF this] show ?thesis
        by (simp add: eq d1)
    qed
  qed
qed

lemma sold_Cons:
  "sold (item # items) ident = (if it_productId item = ident then it_quantity item else 0) + sold items ident"
  by (simp add: sold_def)

lemma stock_decremented_step:
  assumes "stock_decremented items
     (map (\<lambda>p. if p_id p = it_productId item
                then p\<lparr>p_stock := map_option (\<lambda>s. s - it_quantity item) (p_stock p),
                       p_updatedAt := t\<rparr>
                else p) ps) ps'"
  shows "stock_decremented (item # items) ps ps'"
  using assms unfolding stock_decremented_def list_all2_map1
  by (rule list_all2_mono) (auto simp: sold_Cons option.map_comp comp_def algebra_simps split: if_splits option.splits)

lemma stock_decremented_Nil: "stock_decremented [] ps ps"
  by (simp add: stock_decremented_def sold_def list_all2_same option.map_ident)

lemma createSale_items_Inr:
  "createSale_items ev sid k items d = (Inr u, d') \<Longrightarrow>
     (\<exists>rows. saleItems d' = saleItems d @ rows \<and> list_all2 (stores sid) items rows) \<and>
     stock_decremented items (products d) (products d')"
proof (induction items arbitrary: d k)
  case Nil
  then show ?case by (simp add: stock_decremented_Nil)
next
  case (Cons item items)
  from Cons.prems obtain d1 where
    d1: "insert_saleItems d item (new_saleItem ev k sid item) = Inr d1"
    by (auto split: sum.splits)
  from Cons.prems d1 obtain d2 where
    d2: "decrement_stock ev (it_productId item) (it_quantity item) d1 = Inr d2"
    by (auto split: sum.splits)
  from Cons.prems d1 d2 have rest: "createSale_items ev sid (Suc k) items d2 = (Inr u, d')"
    by simp
  note e1 = insert_saleItems_Inr [OF d1]
  note e2 = decrement_stock_Inr [OF d2]
  from Cons.IH [OF rest] obtain rows where
    rows: "saleItems d' = saleItems d2 @ rows" "list_all2 (stores sid) items rows"
    and st: "stock_decremented items (products d2) (products d')"
    by blast
  have "saleItems d' = saleItems d @ (new_saleItem ev k sid item # rows)"
    using rows(1) by (simp add: e1 e2)
  moreover have "list_all2 (stores sid) (item # items) (new_saleItem ev k sid item # rows)"
    using rows(2) by (simp add: stores_def new_saleItem_def)
  moreover have "stock_decremented (item # items) (products d) (products d')"
    using st by (intro stock_decremented_step [where t = "Some (now ev)"]) (simp add: e1 e2)
  ultimately show ?case by blast
qed

lemma createSale_items_Inl:
  "createSale_items ev sid k items d = (Inl e, d') \<Longrightarrow>
     \<exists>rows n m. saleItems d' = saleItems d @ rows \<and> list_all2 (stores sid) (take n items) rows \<and>
       stock_decremented (take m items) (products d) (products d') \<and>
       n \<le> length items \<and> m < length items \<and> (n = m \<or> n = Suc m)"
proof (induction items arbitrary: d k)
  case Nil
  then show ?case by simp
next
  case (Cons item items)
  show ?case
  proof (cases "insert_saleItems d item (new_saleItem ev k sid item)")
    case (Inl e1)
    with Cons.prems have "d' = d" by simp
    then have "saleItems d' = saleItems d @ [] \<and> list_all2 (stores sid) (take 0 (item # items)) [] \<and>
       stock_decremented (take 0 (item # items)) (products d) (products d') \<and>
       0 \<le> length (item # items) \<and> 0 < length (item # items) \<and> ((0::nat) = 0 \<or> (0::nat) = Suc 0)"
      by (simp add: stock_decremented_Nil)
    then show ?thesis by blast
  next
    case (Inr d1)
    note e1 = insert_saleItems_Inr [OF Inr]
    show ?thesis
    proof (cases "decrement_stock ev (it_productId item) (it_quantity item) d1")
      case (Inl e2)
      with Cons.prems Inr have "d' = d1" by simp
      then have "saleItems d' = saleItems d @ [new_saleItem ev k sid item] \<and>
         list_all2 (stores sid) (take (Suc 0) (item # items)) [new_saleItem ev k sid item] \<and>
         stock_decremented (take 0 (item # items)) (products d) (products d') \<and>
         Suc 0 \<le> length (item # items) \<and> 0 < length (item # items) \<and> (Suc 0 = 0 \<or> Suc 0 = Suc 0)"
        by (simp add: stock_decremented_Nil e1 stores_def new_saleItem_def)
      then show ?thesis by blast
    next
      case d2: (Inr d2)
      note e2 = decrement_stock_Inr [OF d2]
      from Cons.prems Inr d2 have "createSale_items ev sid (Suc k) items d2 = (Inl e, d')"
        by simp
      from Cons.IH [OF this] obtain rows n m where
        rows: "saleItems d' = saleItems d2 @ rows" "list_all2 (stores sid) (take n items) rows"
        and st: "stock_decremented (take m items) (products d2) (products d')"
        and nm: "n \<le> length items" "m < length items" "n = m \<or> n = Suc m"
        by blast
      have "saleItems d' = saleItems d @ (new_saleItem ev k sid item # rows)"
        using rows(1) by (simp add: e1 e2)
      moreover have "list_all2 (stores sid) (take (Suc n) (item # items)) (new_saleItem ev k sid item # rows)"
        using rows(2) by (simp add: stores_def new_saleItem_def)
      moreover have "stock_decremented (take (Suc m) (item # items)) (products d) (products d')"
        using st by (simp, intro stock_decremented_step [where t = "Some (now ev)"]) (simp add: e1 e2)
      moreover have "Suc n \<le> length (item # items)" "Suc m < length (item # items)"
        "Suc n = Suc m \<or> Suc n = Suc (Suc m)"
        using nm by auto
      ultimately show ?thesis by blast
    qed
  qed
qed

lemma createSale_Inr:
  assumes "createSale ev saleData items d = (Inr (sale, invoice), d')"
  shows "sale = new_sale ev saleData"
    and "invoice = new_invoice ev (Suc (length items)) sale"
    and "users d' = users d" and "businesses d' = businesses d"
    and "businessEmployees d' = businessEmployees d"
    and "sales d' = sales d @ [sale]"
    and "s_id sale \<notin> set (map s_id (sales d))"
    and "\<exists>rows. saleItems d' = saleItems d @ rows \<and> list_all2 (stores (s_id sale)) items rows"
    and "stock_decremented items (products d) (products d')"
    and "invoices d' = invoices d @ [invoice]"
    and "i_invoiceNumber invoice \<notin> set (map i_invoiceNumber (invoices d))"
proof -
  let ?sale = "new_sale ev saleData"
  from assms obtain d1 where d1: "insert_sales d saleData ?sale = Inr d1"
    by (auto simp: createSale_def Let_def split: sum.splits)
  from assms d1 obtain u d2 where d2: "createSale_items ev (s_id ?sale) 1 items d1 = (Inr u, d2)"
    by (auto simp: createSale_def Let_def split: sum.splits prod.splits)
  let ?invoice = "new_invoice ev (Suc (length items)) ?sale"
  from assms d1 d2 have d3: "insert_invoices d2 ?invoice = Inr d'"
    and sale: "sale = ?sale" and invoice: "invoice = ?invoice"
    by (auto simp: createSale_def Let_def split: sum.splits prod.splits)
  note e1 = insert_sales_Inr [OF d1]
  note fr = createSale_items_frame [OF d2]
  note it = createSale_items_Inr [OF d2]
  note e3 = insert_invoices_Inr [OF d3]
  show "sale = new_sale ev saleData" by (rule sale)
  show "invoice = new_invoice ev (Suc (length items)) sale" using sale invoice by simp
  show "users d' = users d" using e1 fr e3 by simp
  show "businesses d' = businesses d" using e1 fr e3 by simp
  show "businessEmployees d' = businessEmployees d" using e1 fr e3 by simp
  show "sales d' = sales d @ [sale]" using e1 fr e3 sale by simp
  show "s_id sale \<notin> set (map s_id (sales d))" using e1 sale by simp
  show "\<exists>rows. saleItems d' = saleItems d @ rows \<and> list_all2 (stores (s_id sale)) items rows"
    using it e1 e3 sale by simp
  show "stock_decremented items (products d) (products d')" using it e1 e3 by simp
  show "invoices d' = invoices d @ [invoice]" using e1 fr e3 invoice by simp
  show "i_invoiceNumber invoice \<notin> set (map i_invoiceNumber (invoices d))"
    using e1 fr e3 invoice by simp
qed

lemma createSale_Inl:
  assumes "createSale ev saleData items d = (Inl e, d')"
  shows "d' = d \<or>
     (users d' = users d \<and> businesses d' = businesses d \<and>
      businessEmployees d' = businessEmployees d \<and>
      sales d' = sales d @ [new_sale ev saleData] \<and> invoices d' = invoices d \<and>
      (\<exists>rows n m. saleItems d' = saleItems d @ rows \<and>
         list_all2 (stores (s_id (new_sale ev saleData))) (take n items) rows \<and>
         stock_decremented (take m items) (products d) (products d') \<and>
         n \<le> length items \<and> m \<le> length items \<and> (n = m \<or> n = Suc m)))"
proof (cases "insert_sales d saleData (new_sale ev saleData)")
  case (Inl e1)
  with assms show ?thesis by (simp add: createSale_def Let_def)
next
  case (Inr d1)
  note e1 = insert_sales_Inr [OF Inr]
  obtain r2 d2 where d2: "createSale_items ev (s_id (new_sale ev saleData)) 1 items d1 = (r2, d2)"
    by (cases "createSale_items ev (s_id (new_sale ev saleData)) 1 items d1") blast
  note fr = createSale_items_frame [OF d2]
  show ?thesis
  proof (cases r2)
    case (Inl e2)
    with assms Inr d2 have eq: "d' = d2" by (simp add: createSale_def Let_def)
    from createSale_items_Inl [OF d2 [unfolded Inl]] obtain rows n m where
      "saleItems d2 = saleItems d1 @ rows"
      "list_all2 (stores (s_id (new_sale ev saleData))) (take n items) rows"
      "stock_decremented (take m items) (products d1) (products d2)"
      "n \<le> length items" "m < length items" "n = m \<or> n = Suc m"
      by blast
    then have "\<exists>rows n m. saleItems d' = saleItems d @ rows \<and>
         list_all2 (stores (s_id (new_sale ev saleData))) (take n items) rows \<and>
         stock_decremented (take m items) (products d) (products d') \<and>
         n \<le> length items \<and> m \<le> length items \<and> (n = m \<or> n = Suc m)"
      using e1 eq by (intro exI [of _ rows] exI [of _ n] exI [of _ m]) simp
    then show ?thesis using e1 fr eq by simp
  next
    case r2: (Inr u)
    from createSale_items_Inr [OF d2 [unfolded r2]] obtain rows where
      rows: "saleItems d2 = saleItems d1 @ rows"
        "list_all2 (stores (s_id (new_sale ev saleData))) items rows"
      and st: "stock_decremented items (products d1) (products d2)"
      by blast
    from assms Inr d2 r2 have eq: "d' = d2"
      by (auto simp: createSale_def Let_def split: sum.splits)
    have "\<exists>rows n m. saleItems d' = saleItems d @ rows \<and>
         list_all2 (stores (s_id (new_sale ev saleData))) (take n items) rows \<and>
         stock_decremented (take m items) (products d) (products d') \<and>
         n \<le> length items \<and> m \<le> length items \<and> (n = m \<or> n = Suc m)"
      using rows st e1 eq
      by (intro exI [of _ rows] exI [of _ "length items"] exI [of _ "length items"]) simp
    then show ?thesis using e1 fr eq by simp
  qed
qed

lemma db1_reached:
  "post_game_sales ev0 game_two_burgers db0 =
     (reply 201 (GameSaleCreated ''a-0'' ''INV-LOYW3V28'' 20000), db1)"
  by (simp add: route_defs storage_defs example_defs)

lemma one_burger_composed:
  "resolve_items db1 ''B1'' (gs_items game_one_burger) [] 0 = Inr (one_burger_items, 10000)"
  by (simp add: storage_defs stock_or_0_def example_defs)

section \<open>Sale creation\<close>

text \<open>
  Claim C1, as stated, fails. The second of two sales made in the same millisecond draws
  the invoice number of the first; the invoice insert is refused and \<open>createSale\<close>
  throws, after the sale row and its item row were written and the stock was lowered.
  These writes stay: the database then holds a sale without an invoice.
\<close>

theorem createSale_partial_counterexample:
  "fst (createSale ev1 one_burger_sale one_burger_items db1) = Inl UniqueViolation \<and>
   map s_id (sales (snd (createSale ev1 one_burger_sale one_burger_items db1))) = [''a-0'', ''b-0''] \<and>
   map si_saleId (saleItems (snd (createSale ev1 one_burger_sale one_burger_items db1))) = [''a-0'', ''b-0''] \<and>
   map p_stock (products (snd (createSale ev1 one_burger_sale one_burger_items db1))) = [Some 0, Some 10] \<and>
   map i_saleId (invoices (snd (createSale ev1 one_burger_sale one_burger_items db1))) = [''a-0''] \<and>
   map s_id (sales db1) = [''a-0''] \<and> map p_stock (products db1) = [Some 1, Some 10]"
  by (simp add: storage_defs example_defs)

text \<open>
  Claim C1, amended. \<open>createSale\<close> writes statement by statement, outside any
  transaction. When it returns, the sale row, one item row for every item, every stock
  decrement and the invoice row of the sale are all persisted. When it throws, either
  nothing was written (the insert of the sale was refused), or the sale row stays, with
  the item rows and stock decrements made before the refused statement and without an
  invoice row.
\<close>

theorem createSale_effect:
  assumes "createSale ev saleData items d = (r, d')"
  shows "case r of
      Inr (sale, invoice) \<Rightarrow>
        sales d' = sales d @ [sale] \<and>
        (\<exists>rows. saleItems d' = saleItems d @ rows \<and> list_all2 (stores (s_id sale)) items rows) \<and>
        stock_decremented items (products d) (products d') \<and>
        invoices d' = invoices d @ [invoice] \<and> i_saleId invoice = s_id sale
    | Inl e \<Rightarrow>
        d' = d \<or>
        (sales d' = sales d @ [new_sale ev saleData] \<and> invoices d' = invoices d \<and>
         (\<exists>rows n m. saleItems d' = saleItems d @ rows \<and>
            list_all2 (stores (s_id (new_sale ev saleData))) (take n items) rows \<and>
            stock_decremented (take m items) (products d) (products d') \<and>
            n \<le> length items \<and> m \<le> length items \<and> (n = m \<or> n = Suc m)))"
proof (cases r)
  case (Inl e)
  from createSale_Inl [OF assms [unfolded Inl]] show ?thesis
    unfolding Inl by auto
next
  case (Inr p)
  obtain sale invoice where p: "p = (sale, invoice)" by (cases p)
  note ok = createSale_Inr [OF assms [unfolded Inr p]]
  from ok(2) have "i_saleId invoice = s_id sale" by (simp add: new_invoice_def)
  with ok show ?thesis unfolding Inr p by simp
qed

text \<open>
  In the example, a first sale of one burger returns and persists its rows; the same sale
  made again in the millisecond of an earlier one throws and leaves its sale row behind.
\<close>

theorem createSale_effect_witness:
  "(case fst (createSale ev0 one_burger_sale one_burger_items db0) of
      Inr (sale, invoice) \<Rightarrow>
        sales (snd (createSale ev0 one_burger_sale one_burger_items db0)) = sales db0 @ [sale] \<and>
        stock_decremented one_burger_items (products db0)
          (products (snd (createSale ev0 one_burger_sale one_burger_items db0))) \<and>
        invoices (snd (createSale ev0 one_burger_sale one_burger_items db0)) = invoices db0 @ [invoice]
    | Inl e \<Rightarrow> False) \<and>
   (case fst (createSale ev1 one_burger_sale one_burger_items db1) of
      Inr p \<Rightarrow> False
    | Inl e \<Rightarrow>
        sales (snd (createSale ev1 one_burger_sale one_burger_items db1)) =
          sales db1 @ [new_sale ev1 one_burger_sale] \<and>
        invoices (snd (createSale ev1 one_burger_sale one_burger_items db1)) = invoices db1)"
proof -
  have ok: "isl (fst (createSale ev0 one_burger_sale one_burger_items db0)) = False"
    by (simp add: storage_defs example_defs)
  have ko: "fst (createSale ev1 one_burger_sale one_burger_items db1) = Inl UniqueViolation"
    and changed: "snd (createSale ev1 one_burger_sale one_burger_items db1) \<noteq> db1"
    by (simp_all add: storage_defs example_defs)
  show ?thesis
    using createSale_effect [OF prod.collapse [symmetric], of ev0 one_burger_sale one_burger_items db0]
      createSale_effect [OF prod.collapse [symmetric], of ev1 one_burger_sale one_burger_items db1]
      ok ko changed
    by (auto split: sum.splits)
qed

section \<open>Refused requests\<close>

lemma verify_items_unavailable:
  "\<exists>item \<in> set items. unavailable d bid (it_productId item) (it_quantity item) \<Longrightarrow>
   \<exists>item \<in> set items. \<exists>message. verify_items d bid items = Some message \<and>
      names_reason d bid (it_productId item) (it_quantity item) message"
proof (induction items)
  case Nil
  then show ?case by simp
next
  case (Cons item items)
  show ?case
  proof (cases "unavailable d bid (it_productId item) (it_quantity item)")
    case True
    then have "\<exists>message. verify_items d bid (item # items) = Some message \<and>
        names_reason d bid (it_productId item) (it_quantity item) message"
      by (auto simp: unavailable_def names_reason_def split: option.splits)
    then show ?thesis by auto
  next
    case False
    with Cons.prems have "\<exists>item \<in> set items. unavailable d bid (it_productId item) (it_quantity item)"
      by auto
    from Cons.IH [OF this] False show ?thesis
      by (auto simp: unavailable_def split: option.splits)
  qed
qed

lemma resolve_items_unavailable:
  "\<exists>item \<in> set rest. unavailable d bid (gi_productId item) (gi_quantity item) \<Longrightarrow>
   \<exists>item \<in> set rest. \<exists>message. resolve_items d bid rest items totalAmount = Inl message \<and>
      names_reason d bid (gi_productId item) (gi_quantity item) message"
proof (induction rest arbitrary: items totalAmount)
  case Nil
  then show ?case by simp
next
  case (Cons item rest)
  show ?case
  proof (cases "unavailable d bid (gi_productId item) (gi_quantity item)")
    case True
    then have "\<exists>message. resolve_items d bid (item # rest) items totalAmount = Inl message \<and>
        names_reason d bid (gi_productId item) (gi_quantity item) message"
      by (auto simp: unavailable_def names_reason_def split: option.splits)
    then show ?thesis by auto
  next
    case False
    with Cons.prems have "\<exists>item \<in> set rest. unavailable d bid (gi_productId item) (gi_quantity item)"
      by auto
    from Cons.IH [OF this] False show ?thesis
      by (auto simp: unavailable_def Let_def split: option.splits)
  qed
qed

text \<open>
  Claim C4, as stated, fails. Each route compares the stock with one line at a time, and
  nothing refuses a decrement below zero. A request with two lines of two burgers asks
  for four burgers of three in stock; both routes create the sale and leave a stock of
  minus one.
\<close>

theorem two_lines_oversold_counterexample:
  "map p_stock (products db0) = [Some 3, Some 10] \<and>
   sum_list (map gi_quantity (gs_items game_two_lines)) = 4 \<and>
   res_status (fst (post_game_sales ev0 game_two_lines db0)) = 201 \<and>
   map p_stock (products (snd (post_game_sales ev0 game_two_lines db0))) = [Some (- 1), Some 10] \<and>
   sum_list (map it_quantity (ws_items web_two_lines)) = 4 \<and>
   res_status (fst (post_sales ev0 ''bob'' web_two_lines db0)) = 201 \<and>
   map p_stock (products (snd (post_sales ev0 ''bob'' web_two_lines db0))) = [Some (- 1), Some 10]"
  by (simp add: storage_defs route_defs example_defs)

text \<open>
  Claim C4, amended. On either route, a sale request with a line that is unavailable (its
  product does not exist, belongs to another business than the one the request targets,
  or has less stock than this line asks for) is rejected and writes nothing: the
  database after the request is the database before it. The status is 400, or 403 on
  the web route, or 401 on the game route. For a body that the schema of the route
  accepts, the response carries a specific reason: on the web route the authorization
  message when the user is not authorized for the business, on the game route the key
  message when the key matches no business, and otherwise the message of an unavailable
  line of the request.
\<close>

theorem unavailable_line_rejected:
  "((\<exists>item \<in> set (ws_items wbody).
       unavailable d (ws_businessId wbody) (it_productId item) (it_quantity item)) \<longrightarrow>
     snd (post_sales ev userId wbody d) = d \<and>
     res_status (fst (post_sales ev userId wbody d)) \<in> {400, 403} \<and>
     (webSale_schema wbody \<longrightarrow>
        (\<not> isUserAuthorizedForBusiness d userId (ws_businessId wbody) \<and>
         fst (post_sales ev userId wbody d) =
           reply 403 (Message ''Not authorized to create sales for this business'')) \<or>
        (isUserAuthorizedForBusiness d userId (ws_businessId wbody) \<and>
         (\<exists>item \<in> set (ws_items wbody). \<exists>message.
            names_reason d (ws_businessId wbody) (it_productId item) (it_quantity item) message \<and>
            fst (post_sales ev userId wbody d) = reply 400 (Message message))))) \<and>
   ((\<exists>item \<in> set (gs_items gbody). \<forall>business.
       getBusinessByApiKey d (gs_businessApiKey gbody) = Some business \<longrightarrow>
       unavailable d (b_id business) (gi_productId item) (gi_quantity item)) \<longrightarrow>
     snd (post_game_sales ev gbody d) = d \<and>
     res_status (fst (post_game_sales ev gbody d)) \<in> {400, 401} \<and>
     (gameSale_schema gbody \<longrightarrow>
        (getBusinessByApiKey d (gs_businessApiKey gbody) = None \<and>
         fst (post_game_sales ev gbody d) = reply 401 (Message ''Invalid API key'')) \<or>
        (\<exists>business. getBusinessByApiKey d (gs_businessApiKey gbody) = Some business \<and>
           (\<exists>item \<in> set (gs_items gbody). \<exists>message.
              names_reason d (b_id business) (gi_productId item) (gi_quantity item) message \<and>
              fst (post_game_sales ev gbody d) = reply 400 (Message message)))))"
proof (intro conjI impI)
  assume bad: "\<exists>item \<in> set (ws_items wbody).
       unavailable d (ws_businessId wbody) (it_productId item) (it_quantity item)"
  from verify_items_unavailable [OF bad] obtain item message where
    item: "item \<in> set (ws_items wbody)"
    and v: "verify_items d (ws_businessId wbody) (ws_items wbody) = Some message"
    and m: "names_reason d (ws_businessId wbody) (it_productId item) (it_quantity item) message"
    by blast
  show "snd (post_sales ev userId wbody d) = d"
    using v by (simp add: post_sales_def)
  show "res_status (fst (post_sales ev userId wbody d)) \<in> {400, 403}"
    using v by (simp add: post_sales_def reply_def)
  show "(\<not> isUserAuthorizedForBusiness d userId (ws_businessId wbody) \<and>
         fst (post_sales ev userId wbody d) =
           reply 403 (Message ''Not authorized to create sales for this business'')) \<or>
        (isUserAuthorizedForBusiness d userId (ws_businessId wbody) \<and>
         (\<exists>item \<in> set (ws_items wbody). \<exists>message.
            names_reason d (ws_businessId wbody) (it_productId item) (it_quantity item) message \<and>
            fst (post_sales ev userId wbody d) = reply 400 (Message message)))"
    if "webSale_schema wbody"
    using that v item m by (auto simp: post_sales_def)
next
  assume bad: "\<exists>item \<in> set (gs_items gbody). \<forall>business.
       getBusinessByApiKey d (gs_businessApiKey gbody) = Some business \<longrightarrow>
       unavailable d (b_id business) (gi_productId item) (gi_quantity item)"
  show "snd (post_game_sales ev gbody d) = d"
  proof (cases "getBusinessByApiKey d (gs_businessApiKey gbody)")
    case None
    then show ?thesis by (simp add: post_game_sales_def)
  next
    case (Some business)
    with bad have "\<exists>item \<in> set (gs_items gbody).
        unavailable d (b_id business) (gi_productId item) (gi_quantity item)" by simp
    from resolve_items_unavailable [OF this, of "[]" 0] Some show ?thesis
      by (auto simp: post_game_sales_def)
  qed
  show "res_status (fst (post_game_sales ev gbody d)) \<in> {400, 401}"
  proof (cases "getBusinessByApiKey d (gs_businessApiKey gbody)")
    case None
    then show ?thesis by (simp add: post_game_sales_def reply_def)
  next
    case (Some business)
    with bad have "\<exists>item \<in> set (gs_items gbody).
        unavailable d (b_id business) (gi_productId item) (gi_quantity item)" by simp
    from resolve_items_unavailable [OF this, of "[]" 0] Some show ?thesis
      by (auto simp: post_game_sales_def reply_def)
  qed
  show "(getBusinessByApiKey d (gs_businessApiKey gbody) = None \<and>
         fst (post_game_sales ev gbody d) = reply 401 (Message ''Invalid API key'')) \<or>
        (\<exists>business. getBusinessByApiKey d (gs_businessApiKey gbody) = Some business \<and>
           (\<exists>item \<in> set (gs_items gbody). \<exists>message.
              names_reason d (b_id business) (gi_productId item) (gi_quantity item) message \<and>
              fst (post_game_sales ev gbody d) = reply 400 (Message message)))"
    if schema: "gameSale_schema gbody"
  proof (cases "getBusinessByApiKey d (gs_businessApiKey gbody)")
    case None
    with schema show ?thesis by (simp add: post_game_sales_def)
  next
    case (Some business)
    with bad have "\<exists>item \<in> set (gs_items gbody).
        unavailable d (b_id business) (gi_productId item) (gi_quantity item)" by simp
    from resolve_items_unavailable [OF this, of "[]" 0] obtain item message where
      "item \<in> set (gs_items gbody)"
      "resolve_items d (b_id business) (gs_items gbody) [] 0 = Inl message"
      "names_reason d (b_id business) (gi_productId item) (gi_quantity item) message"
      by blast
    with Some schema show ?thesis
      by (auto simp: post_game_sales_def)
  qed
qed

text \<open>
  In the example, bob is authorized for the burger bar and five burgers are more than the
  three in stock; the key of the burger bar is valid and the tyre is a product of the
  garage. Without authorization the answer to the same web request is 403.
\<close>

theorem unavailable_line_rejected_witness:
  "post_sales ev0 ''bob'' web_five_burgers db0 =
     (reply 400 (Message ''Insufficient stock for Burger''), db0) \<and>
   post_sales ev0 ''carol'' web_five_burgers db0 =
     (reply 403 (Message ''Not authorized to create sales for this business''), db0) \<and>
   post_game_sales ev0 game_tyre db0 =
     (reply 400 (Message ''Product Tyre does not belong to this business''), db0)"
proof -
  have web: "\<exists>item \<in> set (ws_items web_five_burgers).
      unavailable db0 (ws_businessId web_five_burgers) (it_productId item) (it_quantity item)"
    by (simp add: unavailable_def storage_defs route_defs example_defs)
  have game: "\<exists>item \<in> set (gs_items game_tyre). \<forall>business.
      getBusinessByApiKey db0 (gs_businessApiKey game_tyre) = Some business \<longrightarrow>
      unavailable db0 (b_id business) (gi_productId item) (gi_quantity item)"
    by (simp add: unavailable_def storage_defs route_defs example_defs)
  have unchanged: "snd (post_sales ev0 ''bob'' web_five_burgers db0) = db0"
    "snd (post_sales ev0 ''carol'' web_five_burgers db0) = db0"
    "snd (post_game_sales ev0 game_tyre db0) = db0"
    using unavailable_line_rejected [of web_five_burgers db0 ev0 "''bob''" game_tyre]
      unavailable_line_rejected [of web_five_burgers db0 ev0 "''carol''" game_tyre] web game
    by blast+
  have "fst (post_sales ev0 ''bob'' web_five_burgers db0) =
      reply 400 (Message ''Insufficient stock for Burger'')"
    by (simp add: storage_defs route_defs example_defs)
  moreover have "fst (post_sales ev0 ''carol'' web_five_burgers db0) =
      reply 403 (Message ''Not authorized to create sales for this business'')"
    by (simp add: storage_defs route_defs example_defs)
  moreover have "fst (post_game_sales ev0 game_tyre db0) =
      reply 400 (Message ''Product Tyre does not belong to this business'')"
    by (simp add: storage_defs route_defs example_defs)
  ultimately show ?thesis using unchanged by (simp add: prod_eq_iff)
qed

lemma getBusinessByApiKey_None:
  "\<forall>b \<in> set (businesses d). b_apiKey b \<noteq> Some k \<Longrightarrow> getBusinessByApiKey d k = None"
  by (simp add: getBusinessByApiKey_def find_None_iff)

text \<open>
  Claim C8. A game sale request whose key matches no business writes nothing, and when
  its body is one the schema of the route accepts, the response is 401 with the message
  of the invalid key. (A body the schema refuses is answered 400 before the key is
  looked up.)
\<close>

theorem invalid_api_key_rejected:
  assumes "\<forall>b \<in> set (businesses d). b_apiKey b \<noteq> Some (gs_businessApiKey body)"
  shows "snd (post_game_sales ev body d) = d \<and>
     res_status (fst (post_game_sales ev body d)) \<in> {400, 401} \<and>
     (gameSale_schema body \<longrightarrow>
        post_game_sales ev body d = (reply 401 (Message ''Invalid API key''), d))"
  using getBusinessByApiKey_None [OF assms]
  by (simp add: post_game_sales_def reply_def)

text \<open>
  In the example no business has the key \<open>rp_0\<close>.
\<close>

theorem invalid_api_key_rejected_witness:
  "gameSale_schema game_wrong_key \<and>
   post_game_sales ev0 game_wrong_key db0 = (reply 401 (Message ''Invalid API key''), db0)"
proof -
  have key: "\<forall>b \<in> set (businesses db0). b_apiKey b \<noteq> Some (gs_businessApiKey game_wrong_key)"
    by (simp add: example_defs)
  have schema: "gameSale_schema game_wrong_key"
    by (simp add: gameSale_schema_def example_defs)
  from invalid_api_key_rejected [OF key, of ev0] schema show ?thesis by blast
qed

lemma post_game_sales_201:
  assumes "post_game_sales ev body d = (r, d')" and "res_status r = 201"
  shows "\<exists>business items totalAmount sale invoice.
     gameSale_schema body \<and>
     getBusinessByApiKey d (gs_businessApiKey body) = Some business \<and>
     resolve_items d (b_id business) (gs_items body) [] 0 = Inr (items, totalAmount) \<and>
     createSale ev (game_saleData d business body totalAmount) items d = (Inr (sale, invoice), d') \<and>
     r = reply 201 (GameSaleCreated (s_id sale) (i_invoiceNumber invoice) totalAmount)"
  using assms
  by (auto simp: post_game_sales_def reply_def split: if_splits option.splits sum.splits prod.splits)

lemma post_sales_201:
  assumes "post_sales ev userId body d = (r, d')" and "res_status r = 201"
  shows "\<exists>sale invoice.
     webSale_schema body \<and> isUserAuthorizedForBusiness d userId (ws_businessId body) \<and>
     verify_items d (ws_businessId body) (ws_items body) = None \<and>
     createSale ev (web_saleData userId body) (ws_items body) d = (Inr (sale, invoice), d') \<and>
     r = reply 201 (SaleCreated sale invoice)"
  using assms
  by (auto simp: post_sales_def reply_def split: if_splits option.splits sum.splits prod.splits)

text \<open>
  Claim C10. On the game route, a supplied seller id that is not authorized for the
  business (neither its owner nor one of its employees) changes nothing: the request has
  the outcome of the same request without a seller id, and when the sale is created its
  seller is the owner of the business.
\<close>

theorem invalid_seller_ignored:
  assumes "getBusinessByApiKey d (gs_businessApiKey body) = Some business"
    and "gs_sellerId body = Some s"
    and "\<not> isUserAuthorizedForBusiness d s (b_id business)"
  shows "post_game_sales ev body d = post_game_sales ev (body\<lparr>gs_sellerId := None\<rparr>) d \<and>
     (res_status (fst (post_game_sales ev body d)) = 201 \<longrightarrow>
        (\<exists>sale. sales (snd (post_game_sales ev body d)) = sales d @ [sale] \<and>
           s_sellerId sale = b_ownerId business))"
proof (intro conjI impI)
  have seller: "resolve_seller d business (gs_sellerId body) = b_ownerId business"
    using assms(2,3) by (simp add: resolve_seller_def)
  have "game_saleData d business (body\<lparr>gs_sellerId := None\<rparr>) t = game_saleData d business body t"
    for t
    using seller by (simp add: game_saleData_def resolve_seller_def)
  then show "post_game_sales ev body d = post_game_sales ev (body\<lparr>gs_sellerId := None\<rparr>) d"
    using assms(1) by (simp add: post_game_sales_def gameSale_schema_def cong: sum.case_cong)
  assume ok: "res_status (fst (post_game_sales ev body d)) = 201"
  obtain r d' where run: "post_game_sales ev body d = (r, d')"
    by (cases "post_game_sales ev body d") blast
  from post_game_sales_201 [OF run] ok run assms(1) obtain items totalAmount sale invoice where
    cs: "createSale ev (game_saleData d business body totalAmount) items d = (Inr (sale, invoice), d')"
    by auto
  from createSale_Inr(1,6) [OF cs] seller
  have "sales d' = sales d @ [sale] \<and> s_sellerId sale = b_ownerId business"
    by (simp add: new_sale_def game_saleData_def)
  then show "\<exists>sale. sales (snd (post_game_sales ev body d)) = sales d @ [sale] \<and>
           s_sellerId sale = b_ownerId business"
    using run by auto
qed

text \<open>
  In the example carol is named as seller of the burger bar; the sale is created with
  alice, the owner, as its seller.
\<close>

theorem invalid_seller_ignored_witness:
  "gs_sellerId game_two_burgers = Some ''carol'' \<and>
   \<not> isUserAuthorizedForBusiness db0 ''carol'' ''B1'' \<and>
   res_status (fst (post_game_sales ev0 game_two_burgers db0)) = 201 \<and>
   (\<exists>sale. sales (snd (post_game_sales ev0 game_two_burgers db0)) = sales db0 @ [sale] \<and>
      s_sellerId sale = ''alice'')"
proof -
  have key: "getBusinessByApiKey db0 (gs_businessApiKey game_two_burgers) =
      Some \<lparr>b_id = ''B1'', b_name = ''Burger Shot'', b_ownerId = ''alice'', b_apiKey = Some ''rp_1''\<rparr>"
    by (simp add: storage_defs example_defs)
  have seller: "gs_sellerId game_two_burgers = Some ''carol''"
    by (simp add: example_defs)
  have no: "\<not> isUserAuthorizedForBusiness db0 ''carol''
      (b_id \<lparr>b_id = ''B1'', b_name = ''Burger Shot'', b_ownerId = ''alice'', b_apiKey = Some ''rp_1''\<rparr>)"
    by (simp add: storage_defs example_defs)
  have ok: "res_status (fst (post_game_sales ev0 game_two_burgers db0)) = 201"
    by (simp add: db1_reached reply_def)
  from invalid_seller_ignored [OF key seller no, of ev0] ok
  have "\<exists>sale. sales (snd (post_game_sales ev0 game_two_burgers db0)) = sales db0 @ [sale] \<and>
      s_sellerId sale = ''alice''"
    by (elim conjE) simp
  with ok seller no show ?thesis by simp
qed

section \<open>Prices and totals of a sale\<close>


lemma hundredths_two_decimals: "hundredths (Numeral m 2) = m"
  by simp








lemma web_two_burgers_created:
  "res_status (fst (post_sales ev0 ''bob'' web_two_burgers db0)) = 201"
  by (simp add: storage_defs route_defs example_defs)





section \<open>Invariants of a created sale\<close>

lemma filter_none: "\<forall>x \<in> set xs. \<not> P x \<Longrightarrow> filter P xs = []"
  by (induction xs) auto







lemma game_one_burger_created:
  "res_status (fst (post_game_sales ev2 game_one_burger db1)) = 201"
  by (simp add: storage_defs route_defs example_defs)


text \<open>
  Claim C6. In a database whose invoice rows all reference a sale row, every sale
  created through either route adds one sale row and one invoice row; this invoice is the
  only invoice of the new sale, its status is pending, and no other invoice has its
  number. (The invoice number is derived from the clock; the unique constraint of the
  column refuses a second invoice with the same number, and the sale is then not
  created.)
\<close>

theorem sale_has_one_pending_invoice:
  assumes fk: "\<forall>i \<in> set (invoices d). i_saleId i \<in> set (map s_id (sales d))"
    and run: "post_sales ev userId wbody d = (r, d') \<or> post_game_sales ev gbody d = (r, d')"
    and ok: "res_status r = 201"
  shows "\<exists>sale invoice.
     sales d' = sales d @ [sale] \<and> invoices d' = invoices d @ [invoice] \<and>
     filter (\<lambda>i. i_saleId i = s_id sale) (invoices d') = [invoice] \<and>
     i_status invoice = Some InvoicePending \<and>
     filter (\<lambda>i. i_invoiceNumber i = i_invoiceNumber invoice) (invoices d') = [invoice] \<and>
     (res_json r = SaleCreated sale invoice \<or>
      (\<exists>totalAmount. res_json r = GameSaleCreated (s_id sale) (i_invoiceNumber invoice) totalAmount))"
proof -
  from run obtain saleData items sale invoice where
    cs: "createSale ev saleData items d = (Inr (sale, invoice), d')"
    and js: "res_json r = SaleCreated sale invoice \<or>
      (\<exists>totalAmount. res_json r = GameSaleCreated (s_id sale) (i_invoiceNumber invoice) totalAmount)"
  proof
    assume web: "post_sales ev userId wbody d = (r, d')"
    from post_sales_201 [OF web ok] that show thesis
      by (auto simp: reply_def)
  next
    assume game: "post_game_sales ev gbody d = (r, d')"
    from post_game_sales_201 [OF game ok] that show thesis
      by (auto simp: reply_def)
  qed
  note c = createSale_Inr [OF cs]
  have sid: "i_saleId invoice = s_id sale" and pending: "i_status invoice = Some InvoicePending"
    using c(2) by (simp_all add: new_invoice_def)
  have "\<forall>i \<in> set (invoices d). i_saleId i \<noteq> s_id sale"
    using fk c(7) by metis
  then have "filter (\<lambda>i. i_saleId i = s_id sale) (invoices d) = []"
    by (intro filter_none) simp
  then have one: "filter (\<lambda>i. i_saleId i = s_id sale) (invoices d') = [invoice]"
    using c(10) sid by simp
  have "\<forall>i \<in> set (invoices d). i_invoiceNumber i \<noteq> i_invoiceNumber invoice"
    using c(11) by (metis imageI list.set_map)
  then have "filter (\<lambda>i. i_invoiceNumber i = i_invoiceNumber invoice) (invoices d) = []"
    by (intro filter_none) simp
  then have uniq: "filter (\<lambda>i. i_invoiceNumber i = i_invoiceNumber invoice) (invoices d') = [invoice]"
    using c(10) by simp
  from c(6,10) one pending uniq js show ?thesis by blast
qed

text \<open>
  In the example the game sale of one burger, a minute after the first sale, gets the
  second invoice.
\<close>

theorem sale_has_one_pending_invoice_witness:
  "map i_saleId (invoices db1) = [''a-0''] \<and> map s_id (sales db1) = [''a-0''] \<and>
   res_status (fst (post_game_sales ev2 game_one_burger db1)) = 201 \<and>
   (\<exists>sale invoice.
      sales (snd (post_game_sales ev2 game_one_burger db1)) = sales db1 @ [sale] \<and>
      invoices (snd (post_game_sales ev2 game_one_burger db1)) = invoices db1 @ [invoice] \<and>
      filter (\<lambda>i. i_saleId i = s_id sale) (invoices (snd (post_game_sales ev2 game_one_burger db1))) =
        [invoice] \<and>
      i_status invoice = Some InvoicePending \<and>
      filter (\<lambda>i. i_invoiceNumber i = i_invoiceNumber invoice)
        (invoices (snd (post_game_sales ev2 game_one_burger db1))) = [invoice])"
proof -
  have fk: "\<forall>i \<in> set (invoices db1). i_saleId i \<in> set (map s_id (sales db1))"
    by (simp add: example_defs)
  have run: "post_sales ev2 ''bob'' web_two_burgers db1 =
        (fst (post_game_sales ev2 game_one_burger db1), snd (post_game_sales ev2 game_one_burger db1)) \<or>
      post_game_sales ev2 game_one_burger db1 =
        (fst (post_game_sales ev2 game_one_burger db1), snd (post_game_sales ev2 game_one_burger db1))"
    by simp
  have "map i_saleId (invoices db1) = [''a-0''] \<and> map s_id (sales db1) = [''a-0'']"
    by (simp add: example_defs)
  with sale_has_one_pending_invoice [OF fk run game_one_burger_created] game_one_burger_created
  show ?thesis by blast
qed

section \<open>Paying an invoice\<close>

lemma find_updated_row:
  assumes "\<And>x. k (g x) = k x"
  shows "find (\<lambda>x. k x = a) (map (\<lambda>x. if k x = a then g x else x) xs) =
     map_option g (find (\<lambda>x. k x = a) xs)"
  by (induction xs) (simp_all add: assms)

lemma updateInvoice_paid:
  assumes "ip_status data = Some (Some InvoicePaid)" and "ip_paidAt data = None"
  shows "updateInvoice ev ident data d =
     (Inr (map_option (set_invoice (data\<lparr>ip_paidAt := Some (Some (now ev))\<rparr>))
             (find (\<lambda>i. i_id i = ident) (invoices d))),
      d\<lparr>invoices := map (\<lambda>i. if i_id i = ident
                              then set_invoice (data\<lparr>ip_paidAt := Some (Some (now ev))\<rparr>) i
                              else i) (invoices d)\<rparr>)"
proof -
  have "find (\<lambda>i. i_id i = ident)
          (map (\<lambda>i. if i_id i = ident then set_invoice u i else i) (invoices d)) =
        map_option (set_invoice u) (find (\<lambda>i. i_id i = ident) (invoices d))" for u
    by (rule find_updated_row) (simp add: set_invoice_def)
  then show ?thesis using assms by (simp add: updateInvoice_def Let_def)
qed

text \<open>
  Claim C7, amended. Every update through the route that sets the status to paid and
  succeeds stamps the invoice with the time of that update: the invoice with this id has
  the status paid and a paid timestamp equal to the clock reading of the call, whatever
  timestamp it held before, and every other invoice is unchanged. So the first
  transition to paid sets a non-null timestamp, and a later update to paid replaces it
  with the later time.
\<close>

theorem paid_stamps_now:
  assumes run: "patch_invoice ev userId ident body d = (r, d')"
    and ok: "res_status r = 200"
    and paid: "ir_status body = Some InvoicePaid"
  shows "(\<exists>i. res_json r = InvoiceJson (Some i) \<and> i_id i = ident \<and>
            i_status i = Some InvoicePaid \<and> i_paidAt i = Some (now ev)) \<and>
     list_all2 (\<lambda>i i'. if i_id i = ident
                        then i_id i' = ident \<and> i_status i' = Some InvoicePaid \<and>
                             i_paidAt i' = Some (now ev)
                        else i' = i) (invoices d) (invoices d')"
proof -
  let ?data = "\<lparr>ip_status = map_option Some (ir_status body),
                 ip_dueDate = map_option Some (ir_dueDate body), ip_paidAt = None\<rparr>"
  let ?set = "set_invoice (?data\<lparr>ip_paidAt := Some (Some (now ev))\<rparr>)"
  from run ok obtain existing where
    ex: "find (\<lambda>i. i_id i = ident) (invoices d) = Some existing"
    by (auto simp: patch_invoice_def reply_def split: option.splits)
  have upd: "updateInvoice ev ident ?data d =
     (Inr (Some (?set existing)),
      d\<lparr>invoices := map (\<lambda>i. if i_id i = ident then ?set i else i) (invoices d)\<rparr>)"
    using updateInvoice_paid [of ?data ev ident d] paid ex by simp
  from run ok ex upd have r: "r = reply 200 (InvoiceJson (Some (?set existing)))"
    and d': "d' = d\<lparr>invoices := map (\<lambda>i. if i_id i = ident then ?set i else i) (invoices d)\<rparr>"
    by (auto simp: patch_invoice_def reply_def split: if_splits)
  have fields: "i_id (?set i) = i_id i \<and> i_status (?set i) = Some InvoicePaid \<and>
      i_paidAt (?set i) = Some (now ev)" for i
    using paid by (simp add: set_invoice_def)
  have "i_id existing = ident" using find_Some_D [OF ex] by simp
  with fields [of existing] r have first: "\<exists>i. res_json r = InvoiceJson (Some i) \<and> i_id i = ident \<and>
            i_status i = Some InvoicePaid \<and> i_paidAt i = Some (now ev)"
    by (simp add: reply_def)
  have "list_all2 (\<lambda>i i'. if i_id i = ident
                        then i_id i' = ident \<and> i_status i' = Some InvoicePaid \<and>
                             i_paidAt i' = Some (now ev)
                        else i' = i) (invoices d) (invoices d')"
    unfolding d' using fields by (simp add: list_all2_map2 list_all2_same)
  with first show ?thesis by blast
qed

text \<open>
  Claim C7, as stated, fails. \<open>updateInvoice\<close> tests the paid timestamp of the update
  data, which the route never carries, not the stored one. The invoice of the first sale
  is marked paid, and marked paid again a minute later: the stored timestamp moves from
  the first time to the second.
\<close>

theorem repaid_counterexample:
  "map i_paidAt (invoices db1) = [None] \<and>
   res_status (fst (patch_invoice ev2 ''alice'' ''a-2'' mark_paid db1)) = 200 \<and>
   map i_paidAt (invoices (snd (patch_invoice ev2 ''alice'' ''a-2'' mark_paid db1))) =
     [Some 1700000060000] \<and>
   res_status (fst (patch_invoice ev3 ''alice'' ''a-2'' mark_paid
     (snd (patch_invoice ev2 ''alice'' ''a-2'' mark_paid db1)))) = 200 \<and>
   map i_paidAt (invoices (snd (patch_invoice ev3 ''alice'' ''a-2'' mark_paid
     (snd (patch_invoice ev2 ''alice'' ''a-2'' mark_paid db1))))) = [Some 1700000120000]"
  by (simp add: storage_defs route_defs example_defs)

text \<open>
  In the example alice marks the invoice of the first sale as paid.
\<close>

theorem paid_stamps_now_witness:
  "res_status (fst (patch_invoice ev2 ''alice'' ''a-2'' mark_paid db1)) = 200 \<and>
   ir_status mark_paid = Some InvoicePaid \<and>
   (\<exists>i. res_json (fst (patch_invoice ev2 ''alice'' ''a-2'' mark_paid db1)) = InvoiceJson (Some i) \<and>
      i_id i = ''a-2'' \<and> i_status i = Some InvoicePaid \<and> i_paidAt i = Some 1700000060000)"
proof -
  have ok: "res_status (fst (patch_invoice ev2 ''alice'' ''a-2'' mark_paid db1)) = 200"
    by (simp add: storage_defs route_defs example_defs)
  have paid: "ir_status mark_paid = Some InvoicePaid"
    by (simp add: mark_paid_def)
  have now: "now ev2 = 1700000060000" by (simp add: ev2_def)
  from paid_stamps_now [OF prod.collapse [symmetric] ok paid] ok paid now
  show ?thesis by simp
qed

section \<open>Updating a product\<close>






section \<open>Authorization gate\<close>

text \<open>
  Claim C5. For every user and business, \<open>isUserAuthorizedForBusiness\<close> returns true if
  and only if a business row with this id has this user as its owner, or an employee row
  joins this user to this business. It is false for every other pair; an employee row
  for another business does not count.
\<close>

theorem isUserAuthorizedForBusiness_iff:
  "isUserAuthorizedForBusiness d userId businessId =
     ((\<exists>b \<in> set (businesses d). b_id b = businessId \<and> b_ownerId b = userId) \<or>
      (\<exists>e \<in> set (businessEmployees d). e_businessId e = businessId \<and> e_userId e = userId))"
proof -
  have owner: "(find (\<lambda>b. b_id b = businessId \<and> b_ownerId b = userId) (businesses d) \<noteq> None) =
      (\<exists>b \<in> set (businesses d). b_id b = businessId \<and> b_ownerId b = userId)"
    by (rule find_is_Some)
  have employee: "(find (\<lambda>e. e_businessId e = businessId \<and> e_userId e = userId)
        (businessEmployees d) \<noteq> None) =
      (\<exists>e \<in> set (businessEmployees d). e_businessId e = businessId \<and> e_userId e = userId)"
    by (rule find_is_Some)
  show ?thesis
    unfolding isUserAuthorizedForBusiness_def using owner employee
    by (auto split: option.splits)
qed

text \<open>
  In the example, alice owns the burger bar and bob works there, so both are authorized
  for it; bob is not authorized for the garage, and carol, who owns the garage, is not
  authorized for the burger bar.
\<close>

theorem isUserAuthorizedForBusiness_iff_witness:
  "isUserAuthorizedForBusiness db0 ''alice'' ''B1'' \<and>
   isUserAuthorizedForBusiness db0 ''bob'' ''B1'' \<and>
   \<not> isUserAuthorizedForBusiness db0 ''bob'' ''B2'' \<and>
   \<not> isUserAuthorizedForBusiness db0 ''carol'' ''B1''"
  using isUserAuthorizedForBusiness_iff [of db0 "''alice''" "''B1''"]
    isUserAuthorizedForBusiness_iff [of db0 "''bob''" "''B1''"]
    isUserAuthorizedForBusiness_iff [of db0 "''bob''" "''B2''"]
    isUserAuthorizedForBusiness_iff [of db0 "''carol''" "''B1''"]
  by (simp add: db0_def)

end
